theory Spec2Isabelle
  imports Complex_Main
begin

section \<open>Data model (the shapes imported from \<open>../types\<close>)\<close>

text \<open>
  The module \<open>types\<close> is imported by every source file but is not itself among them.
  The shapes below are the ones the components read and write: \<open>TeamSide\<close> is the
  pair of literals \<open>'me'\<close> and \<open>'op'\<close>, \<open>Position\<close> the slot numbers 1 to 6, and a
  selected position is a \<open>Position\<close> or the Libero marker \<open>'L'\<close>. JavaScript numbers
  are modelled as \<open>int\<close> where the code counts (scores, deltas, set numbers), as
  \<open>real\<close> where it measures (court coordinates), and with the rounding of doubles
  written out where the attack efficiency is computed.
\<close>

datatype TeamSide = Me | Op

datatype Position = P1 | P2 | P3 | P4 | P5 | P6

datatype SelPos = Slot Position | Libero

datatype ActionType = SERVE | ATTACK | BLOCK | DIG | SET | RECEIVE

datatype ActionQuality = QUALITY_NORMAL

datatype ResultType = POINT | ERROR | NORMAL

datatype InteractionState = IDLE | PLAYER_SELECTED | DRAWING | RESULT_PENDING

record Lineup =
  l1 :: string
  l2 :: string
  l3 :: string
  l4 :: string
  l5 :: string
  l6 :: string

text \<open>\<open>lineup[pos]\<close>: the property read of a lineup object at a slot number.\<close>

fun slot :: "Lineup \<Rightarrow> Position \<Rightarrow> string" where
  "slot lineup P1 = l1 lineup"
| "slot lineup P2 = l2 lineup"
| "slot lineup P3 = l3 lineup"
| "slot lineup P4 = l4 lineup"
| "slot lineup P5 = l5 lineup"
| "slot lineup P6 = l6 lineup"

record Coordinate =
  cx :: real
  cy :: real

record TeamConfig =
  matchName :: string
  myName :: string
  opName :: string

record LogEntry =
  log_id :: string
  log_timestamp :: nat
  log_setNumber :: int
  log_myScore :: int
  log_opScore :: int
  log_playerNumber :: string
  log_position :: SelPos
  log_action :: ActionType
  log_quality :: ActionQuality
  log_result :: ResultType
  log_startCoord :: "Coordinate option"
  log_endCoord :: "Coordinate option"
  log_note :: string
  log_servingTeam :: TeamSide

section \<open>GameView: props, local state and the deltas it emits\<close>

text \<open>
  The props of \<open>GameView\<close> that its handlers read. They are the read-only view of the
  match snapshot held by the owner of the component.
\<close>

record MatchSnapshot =
  teamConfig :: TeamConfig
  currentSet :: int
  initialMyLineup :: Lineup
  initialOpLineup :: Lineup
  initialMyLibero :: string
  initialOpLibero :: string
  myScore :: int
  opScore :: int
  servingTeam :: TeamSide
  logs :: "LogEntry list"

text \<open>The \<open>useState\<close> cells of the capture state machine.\<close>

record GameViewState =
  state :: InteractionState
  activeSide :: TeamSide
  selectedPos :: "SelPos option"
  selectedAction :: "ActionType option"
  startCoord :: "Coordinate option"
  endCoord :: "Coordinate option"

text \<open>The four arguments of one \<open>onGameAction\<close> call; \<open>null\<close> is \<open>None\<close>.\<close>

record ScoreUpdate =
  myDelta :: int
  opDelta :: int

record LineupUpdate =
  isMyTeam :: bool
  newLineup :: Lineup
  newLibero :: "string option"

record GameAction =
  newLog :: "LogEntry option"
  scoreUpdate :: "ScoreUpdate option"
  lineupUpdate :: "LineupUpdate option"
  servingTeamUpdate :: "TeamSide option"

subsection \<open>Printing numbers (\<open>Date.now().toString()\<close> and template literals)\<close>

definition digit :: "nat \<Rightarrow> char" where
  "digit d = char_of (48 + d)"

function toString :: "nat \<Rightarrow> string" where
  "toString n = (if n < 10 then [digit n] else toString (n div 10) @ [digit (n mod 10)])"
  by pat_completeness auto
termination
  by (relation "measure (\<lambda>n. n)") auto

definition toStringInt :: "int \<Rightarrow> string" where
  "toStringInt d = (if d < 0 then ''-'' @ toString (nat (- d)) else toString (nat d))"

subsection \<open>Rotation Engine\<close>

definition getRotatedLineup :: "Lineup \<Rightarrow> Lineup" where
  "getRotatedLineup lineup =
     \<lparr> l1 = slot lineup P2, l2 = slot lineup P3, l3 = slot lineup P4,
       l4 = slot lineup P5, l5 = slot lineup P6, l6 = slot lineup P1 \<rparr>"

definition handleRotation :: "MatchSnapshot \<Rightarrow> bool \<Rightarrow> GameAction" where
  "handleRotation m isMy =
     (let currentLineup = (if isMy then initialMyLineup m else initialOpLineup m);
          rotated = getRotatedLineup currentLineup
      in \<lparr> newLog = None, scoreUpdate = None,
           lineupUpdate = Some \<lparr> isMyTeam = isMy, newLineup = rotated, newLibero = None \<rparr>,
           servingTeamUpdate = None \<rparr>)"

subsection \<open>Serve transfer\<close>

text \<open>
  The block \<open>if (pointWinner !== servingTeam) { newServingTeam = pointWinner; ... }\<close>
  occurs three times in \<open>GameView\<close> with the same text: once in \<open>handleScoreAdjust\<close>
  and once in each scoring branch of \<open>handleResult\<close>. It computes the serving-team
  replacement and the lineup replacement, both left \<open>null\<close> when the point winner
  already serves. The lineup replacement is an object literal without a \<open>newLibero\<close>
  field.
\<close>

definition serveTransfer :: "MatchSnapshot \<Rightarrow> TeamSide \<Rightarrow> TeamSide option \<times> LineupUpdate option" where
  "serveTransfer m pointWinner =
     (if pointWinner \<noteq> servingTeam m
      then (let lineToRotate =
                  (if pointWinner = Me then initialMyLineup m else initialOpLineup m)
            in (Some pointWinner,
                Some \<lparr> isMyTeam = (pointWinner = Me),
                       newLineup = getRotatedLineup lineToRotate, newLibero = None \<rparr>))
      else (None, None))"

subsection \<open>Manual score adjustment\<close>

definition handleScoreAdjust :: "MatchSnapshot \<Rightarrow> nat \<Rightarrow> bool \<Rightarrow> int \<Rightarrow> GameAction" where
  "handleScoreAdjust m now isMy delta =
     (let scoreUpd = \<lparr> myDelta = (if isMy then delta else 0),
                       opDelta = (if \<not> isMy then delta else 0) \<rparr>;
          transfer = (if delta > 0 then serveTransfer m (if isMy then Me else Op)
                      else (None, None));
          newServingTeam = fst transfer;
          lineupUpd = snd transfer;
          entry = \<lparr> log_id = toString now,
                    log_timestamp = now,
                    log_setNumber = currentSet m,
                    log_myScore = (if isMy then myScore m + delta else myScore m),
                    log_opScore = (if \<not> isMy then opScore m + delta else opScore m),
                    log_playerNumber = [],
                    log_position = Slot P1,
                    log_action = ATTACK,
                    log_quality = QUALITY_NORMAL,
                    log_result = (if delta > 0 then POINT else NORMAL),
                    log_startCoord = None,
                    log_endCoord = None,
                    log_note = ''Manual Adjust '' @ (if delta > 0 then ''+'' else [])
                                 @ toStringInt delta,
                    log_servingTeam =
                      (case newServingTeam of Some t \<Rightarrow> t | None \<Rightarrow> servingTeam m) \<rparr>
      in \<lparr> newLog = Some entry, scoreUpdate = Some scoreUpd,
           lineupUpdate = lineupUpd, servingTeamUpdate = newServingTeam \<rparr>)"

subsection \<open>The capture state machine\<close>

definition resetFlow :: "GameViewState \<Rightarrow> GameViewState" where
  "resetFlow gv =
     gv \<lparr> state := IDLE, selectedPos := None, selectedAction := None,
          startCoord := None, endCoord := None \<rparr>"

definition handlePlayerSelect :: "TeamSide \<Rightarrow> SelPos \<Rightarrow> GameViewState \<Rightarrow> GameViewState" where
  "handlePlayerSelect side pos gv =
     gv \<lparr> activeSide := side, selectedPos := Some pos, state := PLAYER_SELECTED,
          selectedAction := None, startCoord := None, endCoord := None \<rparr>"

definition handleActionSelect :: "ActionType \<Rightarrow> GameViewState \<Rightarrow> GameViewState" where
  "handleActionSelect action gv = gv \<lparr> selectedAction := Some action, state := DRAWING \<rparr>"

definition handleDrawingComplete :: "Coordinate \<Rightarrow> Coordinate \<Rightarrow> GameViewState \<Rightarrow> GameViewState" where
  "handleDrawingComplete start end gv =
     gv \<lparr> startCoord := Some start, endCoord := Some end, state := RESULT_PENDING \<rparr>"

text \<open>
  \<open>handleResult\<close> returns the \<open>onGameAction\<close> call it makes, if any, and the local
  state afterwards. Its first line is the guard
  \<open>if (!selectedPos || !selectedAction) return\<close>: a slot number 1 to 6, the marker
  \<open>'L'\<close> and every action kind are truthy, so the guard fires exactly when one of the
  two cells is \<open>null\<close>.
\<close>

definition handleResult ::
  "MatchSnapshot \<Rightarrow> nat \<Rightarrow> ResultType \<Rightarrow> GameViewState \<Rightarrow> GameAction option \<times> GameViewState" where
  "handleResult m now result gv =
     (case (selectedPos gv, selectedAction gv) of
        (Some pos, Some action) \<Rightarrow>
          (let isMy = (activeSide gv = Me);
               lineup = (if isMy then initialMyLineup m else initialOpLineup m);
               playerNumber =
                 (case pos of
                    Libero \<Rightarrow> (if isMy then initialMyLibero m else initialOpLibero m)
                  | Slot p \<Rightarrow> slot lineup p);
               scoreUpd =
                 (if result = POINT
                  then Some \<lparr> myDelta = (if isMy then 1 else 0),
                              opDelta = (if \<not> isMy then 1 else 0) \<rparr>
                  else if result = ERROR
                  then Some \<lparr> myDelta = (if \<not> isMy then 1 else 0),
                              opDelta = (if isMy then 1 else 0) \<rparr>
                  else None);
               transfer =
                 (if result = POINT then serveTransfer m (if isMy then Me else Op)
                  else if result = ERROR then serveTransfer m (if \<not> isMy then Me else Op)
                  else (None, None));
               newServingTeam = fst transfer;
               lineupUpd = snd transfer;
               nextMyScore =
                 (case scoreUpd of Some u \<Rightarrow> myScore m + myDelta u | None \<Rightarrow> myScore m);
               nextOpScore =
                 (case scoreUpd of Some u \<Rightarrow> opScore m + opDelta u | None \<Rightarrow> opScore m);
               entry = \<lparr> log_id = toString now,
                         log_timestamp = now,
                         log_setNumber = currentSet m,
                         log_myScore = nextMyScore,
                         log_opScore = nextOpScore,
                         log_playerNumber = playerNumber,
                         log_position = pos,
                         log_action = action,
                         log_quality = QUALITY_NORMAL,
                         log_result = result,
                         log_startCoord = startCoord gv,
                         log_endCoord = endCoord gv,
                         log_note =
                           (if isMy then myName (teamConfig m) else opName (teamConfig m)),
                         log_servingTeam =
                           (case newServingTeam of Some t \<Rightarrow> t | None \<Rightarrow> servingTeam m) \<rparr>
           in (Some \<lparr> newLog = Some entry, scoreUpdate = scoreUpd,
                      lineupUpdate = lineupUpd, servingTeamUpdate = newServingTeam \<rparr>,
               resetFlow gv))
      | _ \<Rightarrow> (None, gv))"

subsection \<open>The owner of the snapshot\<close>

text \<open>
  Modelled from the spec: the callback behind \<open>onGameAction\<close> belongs to the parent of
  \<open>GameView\<close>, which is not among the source files. The specification says that the
  owner applies each named delta to the snapshot: the log entry is appended to the event
  log, the score delta is added to the running score, a lineup replacement replaces the
  lineup of the team it names (and its Libero only when a new Libero is given), and a
  serving-team replacement replaces the serving team. A \<open>null\<close> argument changes nothing.
\<close>

definition onGameAction :: "GameAction \<Rightarrow> MatchSnapshot \<Rightarrow> MatchSnapshot" where
  "onGameAction ga m =
     (let m1 = (case newLog ga of None \<Rightarrow> m | Some e \<Rightarrow> m \<lparr> logs := logs m @ [e] \<rparr>);
          m2 = (case scoreUpdate ga of
                  None \<Rightarrow> m1
                | Some u \<Rightarrow> m1 \<lparr> myScore := myScore m1 + myDelta u,
                                 opScore := opScore m1 + opDelta u \<rparr>);
          m3 = (case lineupUpdate ga of
                  None \<Rightarrow> m2
                | Some u \<Rightarrow>
                    (if isMyTeam u
                     then m2 \<lparr> initialMyLineup := newLineup u,
                               initialMyLibero :=
                                 (case newLibero u of None \<Rightarrow> initialMyLibero m2 | Some b \<Rightarrow> b) \<rparr>
                     else m2 \<lparr> initialOpLineup := newLineup u,
                               initialOpLibero :=
                                 (case newLibero u of None \<Rightarrow> initialOpLibero m2 | Some b \<Rightarrow> b) \<rparr>))
      in (case servingTeamUpdate ga of None \<Rightarrow> m3 | Some t \<Rightarrow> m3 \<lparr> servingTeam := t \<rparr>))"

definition lineupOf :: "MatchSnapshot \<Rightarrow> TeamSide \<Rightarrow> Lineup" where
  "lineupOf m side = (if side = Me then initialMyLineup m else initialOpLineup m)"

definition scoreOf :: "MatchSnapshot \<Rightarrow> TeamSide \<Rightarrow> int" where
  "scoreOf m side = (if side = Me then myScore m else opScore m)"

definition opponent :: "TeamSide \<Rightarrow> TeamSide" where
  "opponent side = (if side = Me then Op else Me)"

text \<open>
  The serve rule of the Score/Serve Ledger in the words of the specification, for an
  emitted call \<open>ga\<close> and the side \<open>winner\<close> that won the point: a winner that does
  not hold serve gains it and has its lineup replaced by its rotation, the other lineup
  staying as it was; a winner that already serves leaves the serving team and both
  lineups unchanged, with no replacement emitted.
\<close>

definition obeysServeRule :: "MatchSnapshot \<Rightarrow> TeamSide \<Rightarrow> GameAction \<Rightarrow> bool" where
  "obeysServeRule m winner ga =
     (let m' = onGameAction ga m in
      (winner \<noteq> servingTeam m \<longrightarrow>
         servingTeamUpdate ga = Some winner
         \<and> lineupUpdate ga
             = Some \<lparr> isMyTeam = (winner = Me),
                      newLineup = getRotatedLineup (lineupOf m winner), newLibero = None \<rparr>
         \<and> servingTeam m' = winner
         \<and> lineupOf m' winner = getRotatedLineup (lineupOf m winner)
         \<and> lineupOf m' (opponent winner) = lineupOf m (opponent winner))
      \<and> (winner = servingTeam m \<longrightarrow>
         servingTeamUpdate ga = None \<and> lineupUpdate ga = None
         \<and> servingTeam m' = servingTeam m
         \<and> initialMyLineup m' = initialMyLineup m
         \<and> initialOpLineup m' = initialOpLineup m))"

section \<open>Court: coordinates, hit-testing and the drag gesture\<close>

text \<open>
  \<open>Point\<close> is a point of the SVG user space, in which the court is the rectangle from
  (0, 0) to (18, 9) and the view box \<open>-1 -0.5 20 10\<close> adds a margin around it. The
  pointer position \<open>pt\<close> of the handlers is the result of \<open>getSVGPoint\<close>, which
  depends on the layout of the page and is a parameter of the model.
\<close>

record Point =
  px :: real
  py :: real

datatype DragMode = DragStart | DragEnd | DrawNew

record CourtState =
  startPos :: "Point option"
  endPos :: "Point option"
  dragMode :: "DragMode option"

definition normalize_pt :: "Point \<Rightarrow> Coordinate" where
  "normalize_pt pt = \<lparr> cx = (px pt / 18) * 100, cy = (py pt / 9) * 100 \<rparr>"

text \<open>
  \<open>getPositionCenter\<close> reads the prop \<open>action\<close> from the closure of the component; it
  is the first argument here. The \<open>switch\<close> covers the six slot numbers, so its default
  (the middle of the net) is never returned.
\<close>

definition getPositionCenter :: "ActionType option \<Rightarrow> TeamSide \<Rightarrow> SelPos \<Rightarrow> bool \<Rightarrow> Point" where
  "getPositionCenter action side pos ignoreAction =
     (let posNum = (case pos of Libero \<Rightarrow> P6 | Slot n \<Rightarrow> n)
      in if side = Me
         then (let p = (case posNum of
                          P4 \<Rightarrow> \<lparr> px = 7.5, py = 1.5 \<rparr>
                        | P3 \<Rightarrow> \<lparr> px = 7.5, py = 4.5 \<rparr>
                        | P2 \<Rightarrow> \<lparr> px = 7.5, py = 7.5 \<rparr>
                        | P5 \<Rightarrow> \<lparr> px = 3.0, py = 1.5 \<rparr>
                        | P6 \<Rightarrow> \<lparr> px = 3.0, py = 4.5 \<rparr>
                        | P1 \<Rightarrow> \<lparr> px = 3.0, py = 7.5 \<rparr>)
               in if \<not> ignoreAction \<and> action = Some SERVE then p \<lparr> px := - 0.5 \<rparr> else p)
         else (let p = (case posNum of
                          P2 \<Rightarrow> \<lparr> px = 10.5, py = 1.5 \<rparr>
                        | P3 \<Rightarrow> \<lparr> px = 10.5, py = 4.5 \<rparr>
                        | P4 \<Rightarrow> \<lparr> px = 10.5, py = 7.5 \<rparr>
                        | P1 \<Rightarrow> \<lparr> px = 15.0, py = 1.5 \<rparr>
                        | P6 \<Rightarrow> \<lparr> px = 15.0, py = 4.5 \<rparr>
                        | P5 \<Rightarrow> \<lparr> px = 15.0, py = 7.5 \<rparr>)
               in if \<not> ignoreAction \<and> action = Some SERVE then p \<lparr> px := 18.5 \<rparr> else p))"

definition getDistance :: "Point \<Rightarrow> Point \<Rightarrow> real" where
  "getDistance p1 p2 = sqrt ((px p1 - px p2) ^ 2 + (py p1 - py p2) ^ 2)"

definition HIT_RADIUS :: real where
  "HIT_RADIUS = 1.5"

text \<open>The effect that seeds the start point on entering \<open>DRAWING\<close> and clears on \<open>IDLE\<close>.\<close>

definition autoStart ::
  "InteractionState \<Rightarrow> TeamSide option \<Rightarrow> SelPos option \<Rightarrow> ActionType option \<Rightarrow> CourtState \<Rightarrow> CourtState" where
  "autoStart st side pos action cs =
     (case (side, pos) of
        (Some s, Some p) \<Rightarrow>
          (if st = DRAWING then cs \<lparr> startPos := Some (getPositionCenter action s p False) \<rparr>
           else if st = IDLE then cs \<lparr> startPos := None, endPos := None \<rparr>
           else cs)
      | _ \<Rightarrow> (if st = IDLE then cs \<lparr> startPos := None, endPos := None \<rparr> else cs))"

text \<open>The test \<open>target && getDistance(pt, target) < HIT_RADIUS\<close> of \<open>handlePointerDown\<close>.\<close>

definition hits :: "Point \<Rightarrow> Point option \<Rightarrow> bool" where
  "hits pt target = (case target of None \<Rightarrow> False | Some q \<Rightarrow> getDistance pt q < HIT_RADIUS)"

text \<open>
  Each pointer handler returns the trajectory state after it and the
  \<open>onDrawingComplete\<close> call it makes, if any.
\<close>

definition handlePointerDown ::
  "InteractionState \<Rightarrow> Point \<Rightarrow> CourtState \<Rightarrow> CourtState \<times> (Coordinate \<times> Coordinate) option" where
  "handlePointerDown st pt cs =
     (if st \<noteq> DRAWING \<and> st \<noteq> RESULT_PENDING then (cs, None)
      else if hits pt (endPos cs) then (cs \<lparr> dragMode := Some DragEnd \<rparr>, None)
      else if hits pt (startPos cs) then (cs \<lparr> dragMode := Some DragStart \<rparr>, None)
      else (cs \<lparr> dragMode := Some DragEnd, endPos := Some pt \<rparr>, None))"

definition handlePointerMove ::
  "Point \<Rightarrow> CourtState \<Rightarrow> CourtState \<times> (Coordinate \<times> Coordinate) option" where
  "handlePointerMove pt cs =
     (case dragMode cs of
        None \<Rightarrow> (cs, None)
      | Some DragStart \<Rightarrow> (cs \<lparr> startPos := Some pt \<rparr>, None)
      | Some _ \<Rightarrow> (cs \<lparr> endPos := Some pt \<rparr>, None))"

definition handlePointerUp :: "CourtState \<Rightarrow> CourtState \<times> (Coordinate \<times> Coordinate) option" where
  "handlePointerUp cs =
     (cs \<lparr> dragMode := None \<rparr>,
      (case (startPos cs, endPos cs) of
         (Some s, Some e) \<Rightarrow> Some (normalize_pt s, normalize_pt e)
       | _ \<Rightarrow> None))"

subsection \<open>The variant of Court without role props\<close>

text \<open>
  The repository holds a second \<open>Court\<close> component (the file kept as
  \<open>unnamed/part_000\<close>), whose props are the ones \<open>GameView\<close> passes. Its
  \<open>normalize\<close>, \<open>getDistance\<close> and hit tests have the same text; its pointer handlers
  notify the parent at other moments, and its serve anchors are -2.0 and 20.0.
\<close>

definition handlePointerDown_part000 ::
  "InteractionState \<Rightarrow> Point \<Rightarrow> CourtState \<Rightarrow> CourtState \<times> (Coordinate \<times> Coordinate) option" where
  "handlePointerDown_part000 st pt cs =
     (if st \<noteq> DRAWING \<and> st \<noteq> RESULT_PENDING then (cs, None)
      else if hits pt (endPos cs) then (cs \<lparr> dragMode := Some DragEnd \<rparr>, None)
      else if hits pt (startPos cs) then (cs \<lparr> dragMode := Some DragStart \<rparr>, None)
      else (cs \<lparr> dragMode := Some DragEnd, endPos := Some pt \<rparr>,
            (case startPos cs of
               Some s \<Rightarrow> Some (normalize_pt s, normalize_pt pt)
             | None \<Rightarrow> None)))"

definition handlePointerMove_part000 ::
  "Point \<Rightarrow> CourtState \<Rightarrow> CourtState \<times> (Coordinate \<times> Coordinate) option" where
  "handlePointerMove_part000 pt cs =
     (case dragMode cs of
        None \<Rightarrow> (cs, None)
      | Some DragStart \<Rightarrow>
          (cs \<lparr> startPos := Some pt \<rparr>,
           (case endPos cs of
              Some e \<Rightarrow> Some (normalize_pt pt, normalize_pt e)
            | None \<Rightarrow> None))
      | Some _ \<Rightarrow>
          (cs \<lparr> endPos := Some pt \<rparr>,
           (case startPos cs of
              Some s \<Rightarrow> Some (normalize_pt s, normalize_pt pt)
            | None \<Rightarrow> None)))"

definition handlePointerUp_part000 ::
  "CourtState \<Rightarrow> CourtState \<times> (Coordinate \<times> Coordinate) option" where
  "handlePointerUp_part000 cs = (cs \<lparr> dragMode := None \<rparr>, None)"

text \<open>
  \<open>GameView\<close> passes \<open>handleDrawingComplete\<close> as the prop \<open>onDrawingComplete\<close>: a call
  made by a pointer handler runs it, and no call leaves the capture state as it is.
\<close>

definition onDrawingComplete ::
  "(Coordinate \<times> Coordinate) option \<Rightarrow> GameViewState \<Rightarrow> GameViewState" where
  "onDrawingComplete call gv =
     (case call of None \<Rightarrow> gv | Some (start, end) \<Rightarrow> handleDrawingComplete start end gv)"

text \<open>
  Modelled from the spec: \<open>denormalize\<close> is named by the specification as the inverse
  of \<open>normalize\<close> and is not defined in any source file. It undoes the linear scale of
  each axis by (100/18, 100/9).
\<close>

definition denormalize :: "Coordinate \<Rightarrow> Point" where
  "denormalize c = \<lparr> px = (cx c / 100) * 18, py = (cy c / 100) * 9 \<rparr>"

definition inCourt :: "Point \<Rightarrow> bool" where
  "inCourt p = (0 \<le> px p \<and> px p \<le> 18 \<and> 0 \<le> py p \<and> py p \<le> 9)"

definition inRange :: "Coordinate \<Rightarrow> bool" where
  "inRange c = (0 \<le> cx c \<and> cx c \<le> 100 \<and> 0 \<le> cy c \<and> cy c \<le> 100)"

section \<open>StatsOverlay: the Stats Aggregator\<close>

record StatSummary =
  attackKills :: nat
  attackTotal :: nat
  blocks :: nat
  serveAces :: nat
  serveErrors :: nat
  digs :: nat
  totalPoints :: nat

definition getTeamLogs :: "TeamConfig \<Rightarrow> LogEntry list \<Rightarrow> TeamSide \<Rightarrow> LogEntry list" where
  "getTeamLogs cfg ls side =
     filter (\<lambda>l. (if log_note l = myName cfg then Me else Op) = side) ls"

definition getPlayerLogs :: "TeamConfig \<Rightarrow> LogEntry list \<Rightarrow> string \<Rightarrow> TeamSide \<Rightarrow> LogEntry list" where
  "getPlayerLogs cfg ls playerNum side =
     filter (\<lambda>l. log_playerNumber l = playerNum) (getTeamLogs cfg ls side)"

text \<open>The body of the \<open>forEach\<close> in \<open>calculateStats\<close>: four statements in sequence.\<close>

definition statStep :: "StatSummary \<Rightarrow> LogEntry \<Rightarrow> StatSummary" where
  "statStep stats l =
     (let s1 = (if log_action l = ATTACK
                then (let t = stats \<lparr> attackTotal := attackTotal stats + 1 \<rparr>
                      in if log_result l = POINT
                         then t \<lparr> attackKills := attackKills t + 1 \<rparr> else t)
                else stats);
          s2 = (if log_action l = BLOCK \<and> log_result l = POINT
                then s1 \<lparr> blocks := blocks s1 + 1 \<rparr> else s1);
          s3 = (if log_action l = SERVE
                then (let a = (if log_result l = POINT
                               then s2 \<lparr> serveAces := serveAces s2 + 1 \<rparr> else s2)
                      in if log_result l = ERROR
                         then a \<lparr> serveErrors := serveErrors a + 1 \<rparr> else a)
                else s2)
      in if log_action l = DIG then s3 \<lparr> digs := digs s3 + 1 \<rparr> else s3)"

definition calculateStats :: "LogEntry list \<Rightarrow> StatSummary" where
  "calculateStats filteredLogs =
     (let stats = foldl statStep
                    \<lparr> attackKills = 0, attackTotal = 0, blocks = 0, serveAces = 0,
                      serveErrors = 0, digs = 0, totalPoints = 0 \<rparr> filteredLogs
      in stats \<lparr> totalPoints := attackKills stats + blocks stats + serveAces stats \<rparr>)"

subsection \<open>Double arithmetic\<close>

text \<open>
  The attack efficiency is computed with the operators \<open>/\<close> and \<open>*\<close> on JavaScript
  numbers, which are binary64 doubles: each operator returns the double nearest to the
  exact result, a tie going to the even significand. \<open>toDouble\<close> is that rounding: a
  nonzero real in the binade \<open>2^e \<le> |x| < 2^(e+1)\<close> is rounded to a multiple of
  \<open>2^(e-52)\<close>, which leaves 53 significant bits. The exponent range is not bounded
  here; the doubles of this computation are 0 or lie between \<open>2^-53\<close> and 200, far from
  the subnormal and the overflow range. The counts are integers below \<open>2^53\<close> and are
  doubles as they stand.
\<close>

definition binade :: "real \<Rightarrow> int" where
  "binade x = \<lfloor>log 2 \<bar>x\<bar>\<rfloor>"

definition roundTiesToEven :: "real \<Rightarrow> int" where
  "roundTiesToEven m =
     (let f = \<lfloor>m\<rfloor>
      in if m - real_of_int f < 1 / 2 then f
         else if 1 / 2 < m - real_of_int f then f + 1
         else if even f then f else f + 1)"

definition toDouble :: "real \<Rightarrow> real" where
  "toDouble x =
     (if x = 0 then 0
      else (let q = 2 powi (binade x - 52)
            in real_of_int (roundTiesToEven (x / q)) * q))"

text \<open>
  \<open>Math.round\<close> returns the integer nearest to its argument, a half going towards plus
  infinity; the result is exact for the doubles that occur here.
\<close>

definition Math_round :: "real \<Rightarrow> int" where
  "Math_round v = \<lfloor>v + 1 / 2\<rfloor>"

text \<open>
  The attack efficiency shown in the team and player views:
  \<open>attackTotal > 0 ? Math.round((attackKills / attackTotal) * 100) : 0\<close>, a percentage.
  The quotient is rounded to a double, and so is its product with 100.
\<close>

definition attackRate :: "StatSummary \<Rightarrow> int" where
  "attackRate stats =
     (if attackTotal stats > 0
      then Math_round
             (toDouble (toDouble (real (attackKills stats) / real (attackTotal stats)) * 100))
      else 0)"

text \<open>The number of events of a subset that satisfy a condition.\<close>

definition countWhere :: "(LogEntry \<Rightarrow> bool) \<Rightarrow> LogEntry list \<Rightarrow> nat" where
  "countWhere P ls = length (filter P ls)"

section \<open>Concrete scenarios\<close>

text \<open>
  The lineup of the end-to-end scenarios of the specification, a match around it, and a
  completed capture (slot 3, Attack, trajectory from (10, 10) to (90, 90)).
\<close>

definition scenarioLineup :: Lineup where
  "scenarioLineup = \<lparr> l1 = ''5'', l2 = ''4'', l3 = ''3'', l4 = ''2'', l5 = ''7'', l6 = ''6'' \<rparr>"

definition scenarioOpLineup :: Lineup where
  "scenarioOpLineup =
     \<lparr> l1 = ''11'', l2 = ''12'', l3 = ''13'', l4 = ''14'', l5 = ''15'', l6 = ''16'' \<rparr>"

definition scenarioMatch :: "TeamSide \<Rightarrow> MatchSnapshot" where
  "scenarioMatch serving =
     \<lparr> teamConfig = \<lparr> matchName = ''G1'', myName = ''Home'', opName = ''Guest'' \<rparr>,
       currentSet = 1,
       initialMyLineup = scenarioLineup, initialOpLineup = scenarioOpLineup,
       initialMyLibero = ''99'', initialOpLibero = ''88'',
       myScore = 0, opScore = 0, servingTeam = serving, logs = [] \<rparr>"

definition scenarioCapture :: "TeamSide \<Rightarrow> GameViewState" where
  "scenarioCapture side =
     \<lparr> state = RESULT_PENDING, activeSide = side, selectedPos = Some (Slot P3),
       selectedAction = Some ATTACK,
       startCoord = Some \<lparr> cx = 10, cy = 10 \<rparr>, endCoord = Some \<lparr> cx = 90, cy = 90 \<rparr> \<rparr>"

definition idleView :: GameViewState where
  "idleView =
     \<lparr> state = IDLE, activeSide = Me, selectedPos = None, selectedAction = None,
       startCoord = None, endCoord = None \<rparr>"

definition drawingView :: GameViewState where
  "drawingView = handleActionSelect ATTACK (handlePlayerSelect Me (Slot P3) idleView)"

text \<open>
  Trajectory states: the start point seeded at the centre of zone 3 of the left side;
  the same with an end point at (12, 4); and a short trajectory whose two ends are less
  than a hit radius apart.
\<close>

definition seededCourt :: CourtState where
  "seededCourt = \<lparr> startPos = Some \<lparr> px = 7.5, py = 4.5 \<rparr>, endPos = None, dragMode = None \<rparr>"

definition staleEndCourt :: CourtState where
  "staleEndCourt =
     \<lparr> startPos = Some \<lparr> px = 7.5, py = 4.5 \<rparr>, endPos = Some \<lparr> px = 12, py = 4 \<rparr>,
       dragMode = None \<rparr>"

definition nearBothCourt :: CourtState where
  "nearBothCourt =
     \<lparr> startPos = Some \<lparr> px = 7.5, py = 4.5 \<rparr>, endPos = Some \<lparr> px = 8, py = 4.5 \<rparr>,
       dragMode = None \<rparr>"

text \<open>
  A serve by the player in slot 1 of the left side: the effect seeds the start point,
  and a pointer-down at \<open>pt\<close> places the end point.
\<close>

definition serveCapture :: "Point \<Rightarrow> CourtState" where
  "serveCapture pt =
     fst (handlePointerDown DRAWING pt
            (autoStart DRAWING (Some Me) (Some (Slot P1)) (Some SERVE)
               \<lparr> startPos = None, endPos = None, dragMode = None \<rparr>))"

text \<open>An event of the log with a given action and result, by player 3 of the home team.\<close>

definition mkLog :: "ActionType \<Rightarrow> ResultType \<Rightarrow> LogEntry" where
  "mkLog a r =
     \<lparr> log_id = ''0'', log_timestamp = 0, log_setNumber = 1, log_myScore = 0, log_opScore = 0,
       log_playerNumber = ''3'', log_position = Slot P3, log_action = a,
       log_quality = QUALITY_NORMAL, log_result = r, log_startCoord = None,
       log_endCoord = None, log_note = ''Home'', log_servingTeam = Me \<rparr>"

text \<open>Forty attacks of which twenty-three scored.\<close>

definition killLogs :: "LogEntry list" where
  "killLogs = replicate 23 (mkLog ATTACK POINT) @ replicate 17 (mkLog ATTACK NORMAL)"

definition sampleLogs :: "LogEntry list" where
  "sampleLogs =
     [mkLog ATTACK POINT, mkLog ATTACK NORMAL, mkLog ATTACK ERROR, mkLog BLOCK POINT,
      mkLog BLOCK NORMAL, mkLog SERVE POINT, mkLog SERVE ERROR, mkLog DIG NORMAL]"

section \<open>Auxiliary facts\<close>

lemma onGameAction_fields:
  "servingTeam (onGameAction ga m)
     = (case servingTeamUpdate ga of None \<Rightarrow> servingTeam m | Some t \<Rightarrow> t)"
  "myScore (onGameAction ga m)
     = (case scoreUpdate ga of None \<Rightarrow> myScore m | Some u \<Rightarrow> myScore m + myDelta u)"
  "opScore (onGameAction ga m)
     = (case scoreUpdate ga of None \<Rightarrow> opScore m | Some u \<Rightarrow> opScore m + opDelta u)"
  "initialMyLineup (onGameAction ga m)
     = (case lineupUpdate ga of
          None \<Rightarrow> initialMyLineup m
        | Some u \<Rightarrow> if isMyTeam u then newLineup u else initialMyLineup m)"
  "initialOpLineup (onGameAction ga m)
     = (case lineupUpdate ga of
          None \<Rightarrow> initialOpLineup m
        | Some u \<Rightarrow> if isMyTeam u then initialOpLineup m else newLineup u)"
  by (simp_all add: onGameAction_def Let_def split: option.splits)

lemma getDistance_less_iff:
  "0 < r \<Longrightarrow> getDistance p q < r \<longleftrightarrow> (px p - px q) ^ 2 + (py p - py q) ^ 2 < r ^ 2"
  unfolding getDistance_def
  by (metis real_sqrt_less_iff real_sqrt_abs abs_of_pos)

lemma hits_Some:
  "hits pt (Some q)
     \<longleftrightarrow> (px pt - px q) * (px pt - px q) + (py pt - py q) * (py pt - py q) < 9 / 4"
proof -
  have "getDistance pt q < 3 / 2
          \<longleftrightarrow> (px pt - px q) ^ 2 + (py pt - py q) ^ 2 < (3 / 2) ^ 2"
    by (rule getDistance_less_iff) simp
  then show ?thesis
    by (simp add: hits_def HIT_RADIUS_def power2_eq_square)
qed

lemma hits_None: "\<not> hits pt None"
  by (simp add: hits_def)

lemma within_radius:
  "getDistance pt q < HIT_RADIUS
     \<longleftrightarrow> (px pt - px q) * (px pt - px q) + (py pt - py q) * (py pt - py q) < 9 / 4"
  using hits_Some [of pt q] by (simp add: hits_def)

lemma normalize_pt_range: "inRange (normalize_pt p) \<longleftrightarrow> inCourt p"
  by (auto simp add: inRange_def inCourt_def normalize_pt_def)

lemma serveCapture_in:
  "serveCapture \<lparr> px = 12, py = 4 \<rparr>
     = \<lparr> startPos = Some \<lparr> px = - 1 / 2, py = 15 / 2 \<rparr>,
         endPos = Some \<lparr> px = 12, py = 4 \<rparr>, dragMode = Some DragEnd \<rparr>"
  by (simp add: serveCapture_def autoStart_def getPositionCenter_def handlePointerDown_def
        hits_Some hits_None)

lemma serveCapture_long:
  "serveCapture \<lparr> px = 37 / 2, py = 9 / 2 \<rparr>
     = \<lparr> startPos = Some \<lparr> px = - 1 / 2, py = 15 / 2 \<rparr>,
         endPos = Some \<lparr> px = 37 / 2, py = 9 / 2 \<rparr>, dragMode = Some DragEnd \<rparr>"
  by (simp add: serveCapture_def autoStart_def getPositionCenter_def handlePointerDown_def
        hits_Some hits_None)

lemma statStep_fields:
  "attackTotal (statStep s l) = attackTotal s + (if log_action l = ATTACK then 1 else 0)"
  "attackKills (statStep s l)
     = attackKills s + (if log_action l = ATTACK \<and> log_result l = POINT then 1 else 0)"
  "blocks (statStep s l)
     = blocks s + (if log_action l = BLOCK \<and> log_result l = POINT then 1 else 0)"
  "serveAces (statStep s l)
     = serveAces s + (if log_action l = SERVE \<and> log_result l = POINT then 1 else 0)"
  "serveErrors (statStep s l)
     = serveErrors s + (if log_action l = SERVE \<and> log_result l = ERROR then 1 else 0)"
  "digs (statStep s l) = digs s + (if log_action l = DIG then 1 else 0)"
  by (simp_all add: statStep_def Let_def)

lemma foldl_attackTotal:
  "attackTotal (foldl statStep s ls) = attackTotal s + countWhere (\<lambda>l. log_action l = ATTACK) ls"
  by (induction ls arbitrary: s) (simp_all add: statStep_fields countWhere_def)

lemma foldl_attackKills:
  "attackKills (foldl statStep s ls)
     = attackKills s + countWhere (\<lambda>l. log_action l = ATTACK \<and> log_result l = POINT) ls"
  by (induction ls arbitrary: s) (simp_all add: statStep_fields countWhere_def)

lemma foldl_blocks:
  "blocks (foldl statStep s ls)
     = blocks s + countWhere (\<lambda>l. log_action l = BLOCK \<and> log_result l = POINT) ls"
  by (induction ls arbitrary: s) (simp_all add: statStep_fields countWhere_def)

lemma foldl_serveAces:
  "serveAces (foldl statStep s ls)
     = serveAces s + countWhere (\<lambda>l. log_action l = SERVE \<and> log_result l = POINT) ls"
  by (induction ls arbitrary: s) (simp_all add: statStep_fields countWhere_def)

lemma foldl_serveErrors:
  "serveErrors (foldl statStep s ls)
     = serveErrors s + countWhere (\<lambda>l. log_action l = SERVE \<and> log_result l = ERROR) ls"
  by (induction ls arbitrary: s) (simp_all add: statStep_fields countWhere_def)

lemma foldl_digs:
  "digs (foldl statStep s ls) = digs s + countWhere (\<lambda>l. log_action l = DIG) ls"
  by (induction ls arbitrary: s) (simp_all add: statStep_fields countWhere_def)

text \<open>Facts about the rounding to a double: its relative error is at most \<open>2^-53\<close>.\<close>

lemma binade_bounds:
  assumes "x \<noteq> 0"
  shows "2 powi binade x \<le> \<bar>x\<bar>" and "\<bar>x\<bar> < 2 powi (binade x + 1)"
proof -
  have pos: "0 < \<bar>x\<bar>" using assms by simp
  have c1: "(2::real) powr real_of_int (binade x) = 2 powi binade x"
    by (rule powr_real_of_int') simp_all
  have c2: "(2::real) powr (real_of_int (binade x) + 1) = 2 powi (binade x + 1)"
    using powr_real_of_int' [of 2 "binade x + 1"] by simp
  have "\<lfloor>log 2 \<bar>x\<bar>\<rfloor> = binade x" by (simp add: binade_def)
  with floor_log_eq_powr_iff [of "\<bar>x\<bar>" 2 "binade x"] pos
  have "2 powr real_of_int (binade x) \<le> \<bar>x\<bar>"
    and "\<bar>x\<bar> < 2 powr (real_of_int (binade x) + 1)"
    by simp_all
  then show "2 powi binade x \<le> \<bar>x\<bar>" and "\<bar>x\<bar> < 2 powi (binade x + 1)"
    by (simp_all only: c1 c2)
qed

lemma binade_eq:
  assumes "2 powi e \<le> \<bar>x\<bar>" and "\<bar>x\<bar> < 2 powi (e + 1)"
  shows "binade x = e"
proof -
  have "(0::real) < 2 powi e" by simp
  with assms(1) have pos: "0 < \<bar>x\<bar>" by linarith
  have c1: "(2::real) powr real_of_int e = 2 powi e"
    by (rule powr_real_of_int') simp_all
  have c2: "(2::real) powr (real_of_int e + 1) = 2 powi (e + 1)"
    using powr_real_of_int' [of 2 "e + 1"] by simp
  have "2 powr real_of_int e \<le> \<bar>x\<bar>" and "\<bar>x\<bar> < 2 powr (real_of_int e + 1)"
    using assms by (simp_all only: c1 c2)
  with floor_log_eq_powr_iff [of "\<bar>x\<bar>" 2 e] pos show ?thesis
    by (simp add: binade_def)
qed

lemma roundTiesToEven_near: "\<bar>real_of_int (roundTiesToEven m) - m\<bar> \<le> 1 / 2"
  unfolding roundTiesToEven_def Let_def by (auto; linarith)

lemma roundTiesToEven_eq:
  assumes "\<bar>real_of_int n - m\<bar> < 1 / 2"
  shows "roundTiesToEven m = n"
proof -
  have "\<bar>real_of_int (roundTiesToEven m) - m\<bar> \<le> 1 / 2" by (rule roundTiesToEven_near)
  with assms have "\<bar>real_of_int (roundTiesToEven m) - real_of_int n\<bar> < 1" by linarith
  then have "\<bar>real_of_int (roundTiesToEven m - n)\<bar> < 1" by simp
  then have "\<bar>roundTiesToEven m - n\<bar> < 1" by linarith
  then show ?thesis by simp
qed

lemma toDouble_eq:
  assumes "2 powi e \<le> \<bar>x\<bar>" and "\<bar>x\<bar> < 2 powi (e + 1)"
    and "\<bar>real_of_int n - x / 2 powi (e - 52)\<bar> < 1 / 2"
  shows "toDouble x = real_of_int n * 2 powi (e - 52)"
proof -
  have "(0::real) < 2 powi e" by simp
  with assms(1) have "0 < \<bar>x\<bar>" by linarith
  then have nz: "x \<noteq> 0" by simp
  have b: "binade x = e" using assms(1,2) by (rule binade_eq)
  have "roundTiesToEven (x / 2 powi (e - 52)) = n" using assms(3) by (rule roundTiesToEven_eq)
  with nz b show ?thesis by (simp add: toDouble_def Let_def)
qed

lemma toDouble_error: "\<bar>toDouble x - x\<bar> \<le> \<bar>x\<bar> / 2 ^ 53"
proof (cases "x = 0")
  case True
  then show ?thesis by (simp add: toDouble_def)
next
  case False
  define q :: real where "q = 2 powi (binade x - 52)"
  have qpos: "0 < q" by (simp add: q_def)
  have split: "2 powi binade x = q * 2 ^ 52"
  proof -
    have "(2::real) powi (binade x - 52 + 52) = 2 powi (binade x - 52) * 2 powi 52"
      by (rule power_int_add) simp
    then show ?thesis by (simp add: q_def)
  qed
  have low: "q * 2 ^ 52 \<le> \<bar>x\<bar>"
    using binade_bounds(1) [OF False] split by simp
  have "\<bar>real_of_int (roundTiesToEven (x / q)) - x / q\<bar> \<le> 1 / 2"
    by (rule roundTiesToEven_near)
  then have "\<bar>real_of_int (roundTiesToEven (x / q)) - x / q\<bar> * q \<le> (1 / 2) * q"
    using qpos by (intro mult_right_mono) simp_all
  moreover have "\<bar>real_of_int (roundTiesToEven (x / q)) - x / q\<bar> * q
                   = \<bar>real_of_int (roundTiesToEven (x / q)) * q - x\<bar>"
  proof -
    have "\<bar>real_of_int (roundTiesToEven (x / q)) - x / q\<bar> * q
            = \<bar>(real_of_int (roundTiesToEven (x / q)) - x / q) * q\<bar>"
      using qpos by (simp add: abs_mult)
    also have "(real_of_int (roundTiesToEven (x / q)) - x / q) * q
                 = real_of_int (roundTiesToEven (x / q)) * q - x"
      using qpos by (simp add: field_simps)
    finally show ?thesis .
  qed
  moreover have "toDouble x = real_of_int (roundTiesToEven (x / q)) * q"
    using False by (simp add: toDouble_def Let_def q_def)
  ultimately have err: "\<bar>toDouble x - x\<bar> \<le> q / 2"
    by linarith
  have "q / 2 \<le> \<bar>x\<bar> / 2 ^ 53"
    using low by (simp add: field_simps)
  with err show ?thesis by linarith
qed

text \<open>
  The rounded percentage of a ratio of two counts is within one half of the exact
  percentage: the two roundings move the product by less than the distance between the
  exact percentage and the nearest half-integer it could be confused with, unless the
  exact percentage is itself a half-integer.
\<close>

lemma rate_near:
  fixes k a :: nat
  assumes a: "0 < a" and ka: "k \<le> a" and small: "a < 2 ^ 40"
  shows "\<bar>real_of_int (Math_round (toDouble (toDouble (real k / real a) * 100)))
           - real k / real a * 100\<bar> \<le> 1 / 2"
proof -
  define f :: real where "f = real k / real a"
  define x :: real where "x = f * 100"
  define q :: real where "q = toDouble f"
  define p :: real where "p = toDouble (q * 100)"
  define r :: int where "r = Math_round p"
  define u :: real where "u = 1 / 2 ^ 53"
  define w :: real where "w = u * real a"
  have ra: "0 < real a" using a by simp
  have frac: "0 \<le> f" "f \<le> 1"
    using a ka by (simp_all add: f_def)
  have u1: "0 \<le> u" "u \<le> 1" by (simp_all add: u_def)
  have "\<bar>q - f\<bar> \<le> \<bar>f\<bar> / 2 ^ 53"
    unfolding q_def by (rule toDouble_error)
  moreover have "\<bar>f\<bar> / 2 ^ 53 \<le> 1 / 2 ^ 53"
    using frac by (intro divide_right_mono) simp_all
  ultimately have e1: "\<bar>q - f\<bar> \<le> u"
    unfolding u_def by linarith
  from e1 frac u1 have qb: "\<bar>q * 100\<bar> \<le> 200" by linarith
  have "\<bar>p - q * 100\<bar> \<le> \<bar>q * 100\<bar> / 2 ^ 53"
    unfolding p_def by (rule toDouble_error)
  moreover have "\<bar>q * 100\<bar> / 2 ^ 53 \<le> 200 / 2 ^ 53"
    using qb by (intro divide_right_mono) simp_all
  moreover have "(200::real) / 2 ^ 53 = 200 * u" by (simp add: u_def)
  ultimately have e2: "\<bar>p - q * 100\<bar> \<le> 200 * u" by linarith
  have ep: "\<bar>p - x\<bar> \<le> 300 * u"
    using e1 e2 unfolding x_def by linarith
  have rlo: "real_of_int r \<le> p + 1 / 2" and rhi: "p + 1 / 2 < real_of_int r + 1"
    unfolding r_def Math_round_def by linarith+
  have wsmall: "600 * w < 1"
  proof -
    have "real a < 2 ^ 40" using small by (metis of_nat_less_iff of_nat_numeral of_nat_power)
    then show ?thesis by (simp add: w_def u_def)
  qed
  have xa: "x * real a = real k * 100"
    using ra by (simp add: x_def f_def)
  have up: "x \<le> real_of_int r + 1 / 2"
  proof (rule ccontr)
    assume "\<not> x \<le> real_of_int r + 1 / 2"
    then have gt: "real_of_int r + 1 / 2 < x" by simp
    then have "(real_of_int r + 1 / 2) * real a < x * real a"
      using ra by (rule mult_strict_right_mono)
    then have "real_of_int ((2 * r + 1) * int a) < real_of_int (200 * int k)"
      using xa by (simp add: algebra_simps)
    then have "(2 * r + 1) * int a < 200 * int k" by (simp only: of_int_less_iff)
    then have "(2 * r + 1) * int a + 1 \<le> 200 * int k" by linarith
    then have "real_of_int ((2 * r + 1) * int a + 1) \<le> real_of_int (200 * int k)"
      by (simp only: of_int_le_iff)
    then have lo: "real_of_int r * real a + real a / 2 + 1 / 2 \<le> x * real a"
      using xa by (simp add: algebra_simps)
    have "x \<le> real_of_int r + 1 / 2 + 300 * u"
      using ep rhi by linarith
    then have "x * real a \<le> (real_of_int r + 1 / 2 + 300 * u) * real a"
      using ra by (intro mult_right_mono) simp_all
    also have "\<dots> = real_of_int r * real a + real a / 2 + 300 * w"
      by (simp add: w_def algebra_simps)
    finally have "x * real a \<le> real_of_int r * real a + real a / 2 + 300 * w" .
    with lo wsmall show False by linarith
  qed
  have down: "real_of_int r - 1 / 2 \<le> x"
  proof (rule ccontr)
    assume "\<not> real_of_int r - 1 / 2 \<le> x"
    then have lt: "x < real_of_int r - 1 / 2" by simp
    then have "x * real a < (real_of_int r - 1 / 2) * real a"
      using ra by (rule mult_strict_right_mono)
    then have "real_of_int (200 * int k) < real_of_int ((2 * r - 1) * int a)"
      using xa by (simp add: algebra_simps)
    then have "200 * int k < (2 * r - 1) * int a" by (simp only: of_int_less_iff)
    then have "200 * int k + 1 \<le> (2 * r - 1) * int a" by linarith
    then have "real_of_int (200 * int k + 1) \<le> real_of_int ((2 * r - 1) * int a)"
      by (simp only: of_int_le_iff)
    then have hi: "x * real a + 1 / 2 \<le> real_of_int r * real a - real a / 2"
      using xa by (simp add: algebra_simps)
    have "real_of_int r - 1 / 2 - 300 * u \<le> x"
      using ep rlo by linarith
    then have "(real_of_int r - 1 / 2 - 300 * u) * real a \<le> x * real a"
      using ra by (intro mult_right_mono) simp_all
    moreover have "(real_of_int r - 1 / 2 - 300 * u) * real a
                     = real_of_int r * real a - real a / 2 - 300 * w"
      by (simp add: w_def algebra_simps)
    ultimately have "real_of_int r * real a - real a / 2 - 300 * w \<le> x * real a"
      by simp
    with hi wsmall show False by linarith
  qed
  from up down have "\<bar>real_of_int r - x\<bar> \<le> 1 / 2" by linarith
  then show ?thesis
    by (simp add: x_def f_def q_def p_def r_def)
qed

lemma toDouble_23_40: "toDouble (23 / 40) = 5179139571476070 / 2 ^ 53"
proof -
  have "toDouble (23 / 40) = real_of_int 5179139571476070 * 2 powi (- 1 - 52)"
    by (rule toDouble_eq) simp_all
  then show ?thesis by (simp add: power_int_minus field_simps)
qed

lemma toDouble_23_40_pct:
  "toDouble (5179139571476070 / 2 ^ 53 * 100) = 8092405580431359 / 2 ^ 47"
proof -
  have "toDouble (5179139571476070 / 2 ^ 53 * 100)
          = real_of_int 8092405580431359 * 2 powi (5 - 52)"
    by (rule toDouble_eq) simp_all
  then show ?thesis by (simp add: power_int_minus field_simps)
qed

lemma rate_23_40: "Math_round (toDouble (toDouble (23 / 40) * 100)) = 57"
proof -
  have "toDouble (toDouble (23 / 40) * 100) = 8092405580431359 / 2 ^ 47"
    by (simp only: toDouble_23_40 toDouble_23_40_pct)
  then have "Math_round (toDouble (toDouble (23 / 40) * 100))
               = Math_round (8092405580431359 / 2 ^ 47)"
    by (simp only:)
  also have "\<dots> = 57" by (simp add: Math_round_def)
  finally show ?thesis .
qed

lemma countWhere_conj_le: "countWhere (\<lambda>l. P l \<and> Q l) ls \<le> countWhere P ls"
  unfolding countWhere_def by (induction ls) simp_all

lemma calculateStats_killLogs:
  "attackKills (calculateStats killLogs) = 23" "attackTotal (calculateStats killLogs) = 40"
  by (simp_all add: calculateStats_def Let_def foldl_attackKills foldl_attackTotal
        countWhere_def killLogs_def mkLog_def)

lemma calculateStats_sample:
  "calculateStats sampleLogs
     = \<lparr> attackKills = 1, attackTotal = 3, blocks = 1, serveAces = 1,
         serveErrors = 1, digs = 1, totalPoints = 3 \<rparr>"
  by (simp add: calculateStats_def sampleLogs_def mkLog_def statStep_def Let_def)

text \<open>
  Rotation has order six: six serve gains bring every player back to the slot the
  player started in.
\<close>

lemma rotation_order_six:
  "getRotatedLineup (getRotatedLineup (getRotatedLineup
     (getRotatedLineup (getRotatedLineup (getRotatedLineup old))))) = old"
  by (simp add: getRotatedLineup_def)

text \<open>
  The \<open>Court\<close> component with role props notifies its parent from \<open>handlePointerUp\<close>
  only: a pointer-down and a drag-move change the trajectory state and leave the capture
  state of \<open>GameView\<close> as it is, and a release notifies exactly when both points exist.
\<close>

lemma court_commits_only_on_release:
  "snd (handlePointerDown st pt cs) = None
   \<and> snd (handlePointerMove pt cs) = None
   \<and> onDrawingComplete (snd (handlePointerDown st pt cs)) gv = gv
   \<and> onDrawingComplete (snd (handlePointerMove pt cs)) gv = gv
   \<and> snd (handlePointerUp cs)
       = (case (startPos cs, endPos cs) of
            (Some s, Some e) \<Rightarrow> Some (normalize_pt s, normalize_pt e)
          | _ \<Rightarrow> None)"
  by (simp add: handlePointerDown_def handlePointerMove_def handlePointerUp_def
        onDrawingComplete_def split: option.splits DragMode.splits)

section \<open>Score/Serve Ledger\<close>

text \<open>
  C1. For every outcome confirmation with outcome Point or Error made with a selected
  player and action, and for every manual score adjustment with a positive delta: the
  side that wins the point (the acting side for Point, the opposing side for Error, the
  adjusted side for a manual increment) gains serve and has its lineup replaced by one
  application of the Rotation Engine when it does not hold serve, and when it already
  holds serve the serving team and both lineups stay unchanged and no replacement is
  emitted.
\<close>

theorem serve_transfer_rule:
  assumes "selectedPos gv = Some pos" and "selectedAction gv = Some action"
    and "result = POINT \<or> result = ERROR" and "0 < delta"
  shows "(case fst (handleResult m now result gv) of
            None \<Rightarrow> False
          | Some ga \<Rightarrow>
              obeysServeRule m
                (if result = POINT then activeSide gv else opponent (activeSide gv)) ga)
         \<and> obeysServeRule m (if isMy then Me else Op) (handleScoreAdjust m now isMy delta)"
proof -
  have manual: "obeysServeRule m (if isMy then Me else Op) (handleScoreAdjust m now isMy delta)"
    using assms(4)
    by (cases isMy; cases "servingTeam m")
       (simp_all add: obeysServeRule_def handleScoreAdjust_def serveTransfer_def Let_def
          onGameAction_fields lineupOf_def opponent_def)
  have full: "(case fst (handleResult m now result gv) of
            None \<Rightarrow> False
          | Some ga \<Rightarrow>
              obeysServeRule m
                (if result = POINT then activeSide gv else opponent (activeSide gv)) ga)"
    using assms(1-3)
    by (cases "activeSide gv"; cases "servingTeam m"; cases result)
       (simp_all add: obeysServeRule_def handleResult_def serveTransfer_def Let_def
          onGameAction_fields lineupOf_def opponent_def)
  from full manual show ?thesis by (rule conjI)
qed

text \<open>
  Scenarios B and A of the specification. With the guests serving, an Attack of the
  home side with outcome Point gives the home side the serve and rotates its lineup
  from 5-4-3-2-7-6 to 4-3-2-7-6-5. With the home side serving, the same outcome leaves
  the serve and the lineup as they were.
\<close>

theorem serve_transfer_rule_witness:
  "selectedPos (scenarioCapture Me) = Some (Slot P3)
   \<and> selectedAction (scenarioCapture Me) = Some ATTACK
   \<and> (POINT = POINT \<or> POINT = ERROR) \<and> (0::int) < 1
   \<and> (case fst (handleResult (scenarioMatch Op) 0 POINT (scenarioCapture Me)) of
         None \<Rightarrow> False
       | Some ga \<Rightarrow>
           obeysServeRule (scenarioMatch Op) Me ga
           \<and> servingTeam (onGameAction ga (scenarioMatch Op)) = Me
           \<and> initialMyLineup (onGameAction ga (scenarioMatch Op))
               = \<lparr> l1 = ''4'', l2 = ''3'', l3 = ''2'', l4 = ''7'', l5 = ''6'', l6 = ''5'' \<rparr>
           \<and> initialOpLineup (onGameAction ga (scenarioMatch Op)) = scenarioOpLineup)
   \<and> obeysServeRule (scenarioMatch Op) Me (handleScoreAdjust (scenarioMatch Op) 0 True 1)
   \<and> (case fst (handleResult (scenarioMatch Me) 0 POINT (scenarioCapture Me)) of
         None \<Rightarrow> False
       | Some ga \<Rightarrow>
           obeysServeRule (scenarioMatch Me) Me ga
           \<and> servingTeam (onGameAction ga (scenarioMatch Me)) = Me
           \<and> initialMyLineup (onGameAction ga (scenarioMatch Me)) = scenarioLineup
           \<and> initialOpLineup (onGameAction ga (scenarioMatch Me)) = scenarioOpLineup)
   \<and> obeysServeRule (scenarioMatch Me) Me (handleScoreAdjust (scenarioMatch Me) 0 True 1)"
proof -
  have b: "(case fst (handleResult (scenarioMatch Op) 0 POINT (scenarioCapture Me)) of
         None \<Rightarrow> False
       | Some ga \<Rightarrow> obeysServeRule (scenarioMatch Op) Me ga)
     \<and> obeysServeRule (scenarioMatch Op) Me (handleScoreAdjust (scenarioMatch Op) 0 True 1)"
    using serve_transfer_rule
      [where gv = "scenarioCapture Me" and pos = "Slot P3" and action = ATTACK
         and result = POINT and delta = 1 and m = "scenarioMatch Op" and now = 0
         and isMy = True]
    by (simp add: scenarioCapture_def cong: option.case_cong)
  have a: "(case fst (handleResult (scenarioMatch Me) 0 POINT (scenarioCapture Me)) of
         None \<Rightarrow> False
       | Some ga \<Rightarrow> obeysServeRule (scenarioMatch Me) Me ga)
     \<and> obeysServeRule (scenarioMatch Me) Me (handleScoreAdjust (scenarioMatch Me) 0 True 1)"
    using serve_transfer_rule
      [where gv = "scenarioCapture Me" and pos = "Slot P3" and action = ATTACK
         and result = POINT and delta = 1 and m = "scenarioMatch Me" and now = 0
         and isMy = True]
    by (simp add: scenarioCapture_def cong: option.case_cong)
  have vb: "fst (handleResult (scenarioMatch Op) 0 POINT (scenarioCapture Me)) \<noteq> None"
    and va: "fst (handleResult (scenarioMatch Me) 0 POINT (scenarioCapture Me)) \<noteq> None"
    by (simp_all add: handleResult_def scenarioCapture_def Let_def)
  from a b va vb show ?thesis
    by (auto simp add: obeysServeRule_def Let_def scenarioMatch_def scenarioCapture_def
          scenarioLineup_def lineupOf_def opponent_def getRotatedLineup_def)
qed

text \<open>
  C2. For every outcome confirmation made with a selected player and action (the
  result buttons are enabled in state ResultPending only): with outcome Point the score
  of the acting side grows by exactly 1 and the other score is unchanged; with outcome
  Error the score of the opposing side grows by exactly 1 and the score of the acting
  side is unchanged; with outcome Normal no score delta is emitted and neither score
  changes.
\<close>

theorem outcome_score_delta:
  assumes "selectedPos gv = Some pos" and "selectedAction gv = Some action"
  shows "case fst (handleResult m now result gv) of
           None \<Rightarrow> False
         | Some ga \<Rightarrow>
            (result = POINT \<longrightarrow>
               scoreUpdate ga
                 = Some \<lparr> myDelta = (if activeSide gv = Me then 1 else 0),
                            opDelta = (if activeSide gv = Me then 0 else 1) \<rparr>
               \<and> scoreOf (onGameAction ga m) (activeSide gv) = scoreOf m (activeSide gv) + 1
               \<and> scoreOf (onGameAction ga m) (opponent (activeSide gv))
                   = scoreOf m (opponent (activeSide gv)))
            \<and> (result = ERROR \<longrightarrow>
               scoreUpdate ga
                 = Some \<lparr> myDelta = (if activeSide gv = Me then 0 else 1),
                            opDelta = (if activeSide gv = Me then 1 else 0) \<rparr>
               \<and> scoreOf (onGameAction ga m) (opponent (activeSide gv))
                 = scoreOf m (opponent (activeSide gv)) + 1
               \<and> scoreOf (onGameAction ga m) (activeSide gv) = scoreOf m (activeSide gv))
            \<and> (result = NORMAL \<longrightarrow>
               scoreUpdate ga = None
               \<and> myScore (onGameAction ga m) = myScore m
               \<and> opScore (onGameAction ga m) = opScore m)"
  using assms
  by (cases "activeSide gv"; cases result)
     (simp_all add: handleResult_def Let_def onGameAction_fields scoreOf_def opponent_def)

text \<open>
  The home side attacks from slot 3 at 0:0 while serving: Point gives 1:0, Error gives
  0:1 and Normal leaves 0:0.
\<close>

theorem outcome_score_delta_witness:
  "selectedPos (scenarioCapture Me) = Some (Slot P3)
   \<and> selectedAction (scenarioCapture Me) = Some ATTACK
   \<and> (case fst (handleResult (scenarioMatch Me) 0 POINT (scenarioCapture Me)) of
         None \<Rightarrow> False
       | Some ga \<Rightarrow>
           myScore (onGameAction ga (scenarioMatch Me)) = 1
           \<and> opScore (onGameAction ga (scenarioMatch Me)) = 0)
   \<and> (case fst (handleResult (scenarioMatch Me) 0 ERROR (scenarioCapture Me)) of
         None \<Rightarrow> False
       | Some ga \<Rightarrow>
           myScore (onGameAction ga (scenarioMatch Me)) = 0
           \<and> opScore (onGameAction ga (scenarioMatch Me)) = 1)
   \<and> (case fst (handleResult (scenarioMatch Me) 0 NORMAL (scenarioCapture Me)) of
         None \<Rightarrow> False
       | Some ga \<Rightarrow>
           myScore (onGameAction ga (scenarioMatch Me)) = 0
           \<and> opScore (onGameAction ga (scenarioMatch Me)) = 0)"
  using outcome_score_delta
      [where gv = "scenarioCapture Me" and pos = "Slot P3" and action = ATTACK
         and m = "scenarioMatch Me" and now = 0 and result = POINT]
    outcome_score_delta
      [where gv = "scenarioCapture Me" and pos = "Slot P3" and action = ATTACK
         and m = "scenarioMatch Me" and now = 0 and result = ERROR]
    outcome_score_delta
      [where gv = "scenarioCapture Me" and pos = "Slot P3" and action = ATTACK
         and m = "scenarioMatch Me" and now = 0 and result = NORMAL]
  by (simp add: scenarioCapture_def scoreOf_def opponent_def split: option.splits)
     (simp add: scenarioMatch_def)

section \<open>Rotation Engine: the relabelling\<close>

text \<open>
  C3. For every 6-slot lineup, one application of the Rotation Engine gives
  new[1]=old[2], new[6]=old[1], new[5]=old[6], new[4]=old[5], new[3]=old[4],
  new[2]=old[3]. The function has no failure path: it is six property reads on any
  lineup. The manual rotation request \<open>handleRotation\<close> emits exactly one lineup
  replacement, carrying the rotated lineup of the requested team and no Libero, so that
  applying it leaves both Libero identifiers and the lineup of the other team as they
  were.
\<close>

theorem rotation_relabelling:
  "slot (getRotatedLineup old) P1 = slot old P2
   \<and> slot (getRotatedLineup old) P6 = slot old P1
   \<and> slot (getRotatedLineup old) P5 = slot old P6
   \<and> slot (getRotatedLineup old) P4 = slot old P5
   \<and> slot (getRotatedLineup old) P3 = slot old P4
   \<and> slot (getRotatedLineup old) P2 = slot old P3
   \<and> lineupUpdate (handleRotation m isMy)
       = Some \<lparr> isMyTeam = isMy,
                newLineup = getRotatedLineup (lineupOf m (if isMy then Me else Op)),
                newLibero = None \<rparr>
   \<and> initialMyLibero (onGameAction (handleRotation m isMy) m) = initialMyLibero m
   \<and> initialOpLibero (onGameAction (handleRotation m isMy) m) = initialOpLibero m
   \<and> lineupOf (onGameAction (handleRotation m isMy) m) (if isMy then Me else Op)
       = getRotatedLineup (lineupOf m (if isMy then Me else Op))
   \<and> lineupOf (onGameAction (handleRotation m isMy) m) (if isMy then Op else Me)
       = lineupOf m (if isMy then Op else Me)"
  by (cases isMy)
     (simp_all add: getRotatedLineup_def handleRotation_def onGameAction_def lineupOf_def
        Let_def)

section \<open>The drag gesture and the commit of a trajectory\<close>

text \<open>
  C4. During the Drawing state an intermediate drag-move only updates the candidate
  end point and never invokes the drawing-complete commit; the commit is issued only on
  release. The component with role props behaves so (\<open>court_commits_only_on_release\<close>
  above; its \<open>handlePointerUp\<close> carries the comment "Notify parent only on release to
  prevent state thrashing/jumping"). The variant of \<open>Court\<close> without role props does
  not: evaluated on one gesture from a freshly seeded Drawing state, its pointer-down at
  the empty point (12, 4) already invokes the commit and moves \<open>GameView\<close> to
  ResultPending, the drag-move to (13, 5) invokes the commit again, and the release
  issues nothing.
\<close>

theorem part000_commits_before_release:
  "state drawingView = DRAWING
   \<and> handlePointerDown_part000 DRAWING \<lparr> px = 12, py = 4 \<rparr> seededCourt
       = (staleEndCourt \<lparr> dragMode := Some DragEnd \<rparr>,
          Some (\<lparr> cx = 125 / 3, cy = 50 \<rparr>, \<lparr> cx = 200 / 3, cy = 400 / 9 \<rparr>))
   \<and> state (onDrawingComplete
               (snd (handlePointerDown_part000 DRAWING \<lparr> px = 12, py = 4 \<rparr> seededCourt))
               drawingView) = RESULT_PENDING
   \<and> snd (handlePointerMove_part000 \<lparr> px = 13, py = 5 \<rparr>
              (staleEndCourt \<lparr> dragMode := Some DragEnd \<rparr>))
       = Some (\<lparr> cx = 125 / 3, cy = 50 \<rparr>, \<lparr> cx = 650 / 9, cy = 500 / 9 \<rparr>)
   \<and> state (onDrawingComplete
               (snd (handlePointerMove_part000 \<lparr> px = 13, py = 5 \<rparr>
                       (staleEndCourt \<lparr> dragMode := Some DragEnd \<rparr>)))
               drawingView) = RESULT_PENDING
   \<and> snd (handlePointerUp_part000
              (fst (handlePointerMove_part000 \<lparr> px = 13, py = 5 \<rparr>
                      (staleEndCourt \<lparr> dragMode := Some DragEnd \<rparr>)))) = None"
  by (simp add: drawingView_def idleView_def handleActionSelect_def handlePlayerSelect_def
        handlePointerDown_part000_def handlePointerMove_part000_def handlePointerUp_part000_def
        seededCourt_def staleEndCourt_def hits_Some hits_None normalize_pt_def
        onDrawingComplete_def handleDrawingComplete_def)

section \<open>The guard of the outcome step\<close>

text \<open>
  C5. An outcome selection that arrives without a selected player slot or without a
  selected action is rejected: \<open>handleResult\<close> returns before it builds anything, so
  no \<open>onGameAction\<close> call is made (no MatchEvent, no score, serving-team or lineup
  delta) and the capture state is left as it was.
\<close>

theorem incomplete_capture_rejected:
  assumes "selectedPos gv = None \<or> selectedAction gv = None"
  shows "handleResult m now result gv = (None, gv)"
  using assms
  by (cases "selectedPos gv"; cases "selectedAction gv") (simp_all add: handleResult_def)

text \<open>A player was selected anew while an outcome was pending: the action is gone.\<close>

theorem incomplete_capture_rejected_witness:
  "(selectedPos (handlePlayerSelect Me (Slot P3) (scenarioCapture Op)) = None
     \<or> selectedAction (handlePlayerSelect Me (Slot P3) (scenarioCapture Op)) = None)
   \<and> handleResult (scenarioMatch Me) 0 POINT (handlePlayerSelect Me (Slot P3) (scenarioCapture Op))
       = (None, handlePlayerSelect Me (Slot P3) (scenarioCapture Op))"
  using incomplete_capture_rejected
    [where gv = "handlePlayerSelect Me (Slot P3) (scenarioCapture Op)"
       and m = "scenarioMatch Me" and now = 0 and result = POINT]
  by (simp add: handlePlayerSelect_def)

section \<open>Coordinate Transform Engine\<close>

text \<open>
  C6, as the code has it. Every Coordinate that a pointer handler passes on for storage
  (on release in the component with role props, on pointer-down and drag-move in the
  variant without) is \<open>normalize\<close> of a trajectory point, the stored start or end point
  or the pointer position, with no clamping: its two components lie in [0, 100] exactly
  when that point lies within the court rectangle from (0, 0) to (18, 9). A point in
  the margin around the court, such as the seeded start point of a serve, is stored with
  a component outside [0, 100].
\<close>

theorem stored_coordinate_range:
  assumes "snd (handlePointerUp cs) = Some (a, b)
           \<or> snd (handlePointerDown_part000 st pt cs) = Some (a, b)
           \<or> snd (handlePointerMove_part000 pt cs) = Some (a, b)"
  shows "\<exists>s e. (startPos cs = Some s \<or> s = pt) \<and> (endPos cs = Some e \<or> e = pt)
           \<and> a = normalize_pt s \<and> b = normalize_pt e
           \<and> (inRange a \<longleftrightarrow> inCourt s) \<and> (inRange b \<longleftrightarrow> inCourt e)"
proof -
  have up: "snd (handlePointerUp cs) = Some (a, b) \<Longrightarrow>
            \<exists>s e. startPos cs = Some s \<and> endPos cs = Some e
              \<and> a = normalize_pt s \<and> b = normalize_pt e"
    by (cases "startPos cs"; cases "endPos cs") (auto simp add: handlePointerUp_def)
  have down: "snd (handlePointerDown_part000 st pt cs) = Some (a, b) \<Longrightarrow>
            \<exists>s. startPos cs = Some s \<and> a = normalize_pt s \<and> b = normalize_pt pt"
    by (cases "startPos cs")
       (auto simp add: handlePointerDown_part000_def split: if_splits)
  have move: "snd (handlePointerMove_part000 pt cs) = Some (a, b) \<Longrightarrow>
            (\<exists>s. startPos cs = Some s \<and> a = normalize_pt s \<and> b = normalize_pt pt)
            \<or> (\<exists>e. endPos cs = Some e \<and> a = normalize_pt pt \<and> b = normalize_pt e)"
    by (cases "dragMode cs"; cases "startPos cs"; cases "endPos cs")
       (auto simp add: handlePointerMove_part000_def split: DragMode.splits)
  from assms up down move
  obtain s e where se: "startPos cs = Some s \<or> s = pt" "endPos cs = Some e \<or> e = pt"
      "a = normalize_pt s" "b = normalize_pt e"
    by blast
  have "inRange a \<longleftrightarrow> inCourt s" and "inRange b \<longleftrightarrow> inCourt e"
    using se by (simp_all add: normalize_pt_range)
  with se show ?thesis by blast
qed

text \<open>
  A serve whose end point is placed inside the court at (12, 4): the stored start lies
  outside [0, 100] and the stored end inside.
\<close>

theorem stored_coordinate_range_witness:
  "snd (handlePointerUp (serveCapture \<lparr> px = 12, py = 4 \<rparr>))
     = Some (\<lparr> cx = - 25 / 9, cy = 250 / 3 \<rparr>, \<lparr> cx = 200 / 3, cy = 400 / 9 \<rparr>)
   \<and> (\<exists>s e. startPos (serveCapture \<lparr> px = 12, py = 4 \<rparr>) = Some s
           \<and> endPos (serveCapture \<lparr> px = 12, py = 4 \<rparr>) = Some e
           \<and> \<not> inCourt s \<and> inCourt e
           \<and> \<not> inRange \<lparr> cx = - 25 / 9, cy = 250 / 3 \<rparr>
           \<and> inRange \<lparr> cx = 200 / 3, cy = 400 / 9 \<rparr>)"
  using stored_coordinate_range
    [where cs = "serveCapture \<lparr> px = 12, py = 4 \<rparr>"
       and a = "\<lparr> cx = - 25 / 9, cy = 250 / 3 \<rparr>"
       and b = "\<lparr> cx = 200 / 3, cy = 400 / 9 \<rparr>"]
  by (simp add: serveCapture_in handlePointerUp_def normalize_pt_def inRange_def inCourt_def)

text \<open>
  C6 as stated fails. For a serve by the player in slot 1 of the left side the start
  point is seeded at (-0.5, 7.5), behind the end line; the pointer is put down at
  (18.5, 4.5), beyond the far end line and inside the view box. The release stores the
  start Coordinate (-25/9, 250/3), whose first component is negative, and the end
  Coordinate (925/9, 50), whose first component exceeds 100.
\<close>

theorem serve_start_out_of_range:
  "snd (handlePointerUp (serveCapture \<lparr> px = 18.5, py = 4.5 \<rparr>))
     = Some (\<lparr> cx = - 25 / 9, cy = 250 / 3 \<rparr>, \<lparr> cx = 925 / 9, cy = 50 \<rparr>)
   \<and> \<not> inRange \<lparr> cx = - 25 / 9, cy = 250 / 3 \<rparr>
   \<and> \<not> inRange \<lparr> cx = 925 / 9, cy = 50 \<rparr>"
  by (simp add: serveCapture_long handlePointerUp_def normalize_pt_def inRange_def)

text \<open>
  C7. \<open>normalize\<close> scales each axis linearly, by 100/18 and by 100/9, and
  \<open>denormalize\<close> undoes it: \<open>denormalize (normalize p) = p\<close> for every point, those
  within the court among them, and \<open>normalize (denormalize c) = c\<close>. Numbers are real
  numbers here, so the round trip is exact; the rounding of floating-point arithmetic is
  not part of the model.
\<close>

theorem normalize_linear_invertible:
  "cx (normalize_pt p) = px p * (100 / 18)
   \<and> cy (normalize_pt p) = py p * (100 / 9)
   \<and> denormalize (normalize_pt p) = p
   \<and> normalize_pt (denormalize c) = c"
  by (simp add: normalize_pt_def denormalize_def)

text \<open>
  C8. For every pointer-down during trajectory capture (state Drawing or
  ResultPending): a point closer than the hit radius to the stored end point grabs the
  end point, a point closer than the hit radius to the stored start point and not to the
  end point grabs the start point, and in both cases the trajectory points stay as they
  were, so that no new end point is placed. When both are closer than the hit radius the
  end point is grabbed. Both variants of \<open>Court\<close> agree here. The comparison of the
  code is strict: a point at exactly the hit radius hits nothing.
\<close>

theorem endpoint_grab_priority:
  assumes "st = DRAWING \<or> st = RESULT_PENDING"
  shows "(endPos cs = Some e \<and> getDistance pt e < HIT_RADIUS \<longrightarrow>
            handlePointerDown st pt cs = (cs \<lparr> dragMode := Some DragEnd \<rparr>, None)
            \<and> handlePointerDown_part000 st pt cs = (cs \<lparr> dragMode := Some DragEnd \<rparr>, None))
         \<and> (startPos cs = Some s \<and> getDistance pt s < HIT_RADIUS \<and> \<not> hits pt (endPos cs) \<longrightarrow>
            handlePointerDown st pt cs = (cs \<lparr> dragMode := Some DragStart \<rparr>, None)
            \<and> handlePointerDown_part000 st pt cs = (cs \<lparr> dragMode := Some DragStart \<rparr>, None))
         \<and> (endPos cs = Some e \<and> getDistance pt e < HIT_RADIUS
              \<and> startPos cs = Some s \<and> getDistance pt s < HIT_RADIUS \<longrightarrow>
            dragMode (fst (handlePointerDown st pt cs)) = Some DragEnd
            \<and> endPos (fst (handlePointerDown st pt cs)) = Some e
            \<and> startPos (fst (handlePointerDown st pt cs)) = Some s)"
  using assms
  by (auto simp add: handlePointerDown_def handlePointerDown_part000_def hits_def)

theorem endpoint_grab_priority_witness:
  "(DRAWING = DRAWING \<or> DRAWING = RESULT_PENDING)
   \<and> getDistance \<lparr> px = 8.2, py = 4.5 \<rparr> \<lparr> px = 8, py = 4.5 \<rparr> < HIT_RADIUS
   \<and> getDistance \<lparr> px = 8.2, py = 4.5 \<rparr> \<lparr> px = 7.5, py = 4.5 \<rparr> < HIT_RADIUS
   \<and> handlePointerDown DRAWING \<lparr> px = 8.2, py = 4.5 \<rparr> nearBothCourt
       = (nearBothCourt \<lparr> dragMode := Some DragEnd \<rparr>, None)
   \<and> getDistance \<lparr> px = 7, py = 5 \<rparr> \<lparr> px = 7.5, py = 4.5 \<rparr> < HIT_RADIUS
   \<and> \<not> hits \<lparr> px = 7, py = 5 \<rparr> (endPos staleEndCourt)
   \<and> handlePointerDown DRAWING \<lparr> px = 7, py = 5 \<rparr> staleEndCourt
       = (staleEndCourt \<lparr> dragMode := Some DragStart \<rparr>, None)"
  using endpoint_grab_priority
      [where st = DRAWING and cs = nearBothCourt and pt = "\<lparr> px = 8.2, py = 4.5 \<rparr>"
         and e = "\<lparr> px = 8, py = 4.5 \<rparr>" and s = "\<lparr> px = 7.5, py = 4.5 \<rparr>"]
    endpoint_grab_priority
      [where st = DRAWING and cs = staleEndCourt and pt = "\<lparr> px = 7, py = 5 \<rparr>"
         and e = "\<lparr> px = 12, py = 4 \<rparr>" and s = "\<lparr> px = 7.5, py = 4.5 \<rparr>"]
  by (simp add: nearBothCourt_def staleEndCourt_def hits_Some within_radius)

section \<open>Stats Aggregator\<close>

text \<open>
  C9, as the code has it. For every subset of the event log: the attack attempts are
  the Attack events and the kills the Attack events with result Point; a block counts
  only when the action is Block and the result is Point; the serve aces are the Serve
  events with result Point and the serve errors those with result Error; the total of
  points is kills plus blocks plus aces. The attack efficiency is 0 when there is no
  attempt. Otherwise it is not the ratio of kills to attempts but an integer percentage,
  \<open>Math.round((kills / attempts) * 100)\<close> computed in doubles, which for fewer than
  \<open>2^40\<close> attempts lies within one half of 100 * kills / attempts.
\<close>

theorem stats_aggregation:
  "attackTotal (calculateStats ls) = countWhere (\<lambda>l. log_action l = ATTACK) ls
   \<and> attackKills (calculateStats ls)
       = countWhere (\<lambda>l. log_action l = ATTACK \<and> log_result l = POINT) ls
   \<and> blocks (calculateStats ls)
       = countWhere (\<lambda>l. log_action l = BLOCK \<and> log_result l = POINT) ls
   \<and> serveAces (calculateStats ls)
       = countWhere (\<lambda>l. log_action l = SERVE \<and> log_result l = POINT) ls
   \<and> serveErrors (calculateStats ls)
       = countWhere (\<lambda>l. log_action l = SERVE \<and> log_result l = ERROR) ls
   \<and> totalPoints (calculateStats ls)
       = attackKills (calculateStats ls) + blocks (calculateStats ls)
         + serveAces (calculateStats ls)
   \<and> (attackTotal (calculateStats ls) = 0 \<longrightarrow> attackRate (calculateStats ls) = 0)
   \<and> (0 < attackTotal (calculateStats ls) \<and> attackTotal (calculateStats ls) < 2 ^ 40 \<longrightarrow>
        attackRate (calculateStats ls)
          = Math_round
              (toDouble
                 (toDouble (real (attackKills (calculateStats ls))
                              / real (attackTotal (calculateStats ls))) * 100))
        \<and> \<bar>real_of_int (attackRate (calculateStats ls))
             - real (attackKills (calculateStats ls))
                 / real (attackTotal (calculateStats ls)) * 100\<bar> \<le> 1 / 2)"
proof -
  have total: "attackTotal (calculateStats ls) = countWhere (\<lambda>l. log_action l = ATTACK) ls"
    by (simp add: calculateStats_def Let_def foldl_attackTotal)
  have kills: "attackKills (calculateStats ls)
       = countWhere (\<lambda>l. log_action l = ATTACK \<and> log_result l = POINT) ls"
    by (simp add: calculateStats_def Let_def foldl_attackKills)
  have blk: "blocks (calculateStats ls)
       = countWhere (\<lambda>l. log_action l = BLOCK \<and> log_result l = POINT) ls"
    by (simp add: calculateStats_def Let_def foldl_blocks)
  have aces: "serveAces (calculateStats ls)
       = countWhere (\<lambda>l. log_action l = SERVE \<and> log_result l = POINT) ls"
    by (simp add: calculateStats_def Let_def foldl_serveAces)
  have errs: "serveErrors (calculateStats ls)
       = countWhere (\<lambda>l. log_action l = SERVE \<and> log_result l = ERROR) ls"
    by (simp add: calculateStats_def Let_def foldl_serveErrors)
  have pts: "totalPoints (calculateStats ls)
       = attackKills (calculateStats ls) + blocks (calculateStats ls)
         + serveAces (calculateStats ls)"
    by (simp add: calculateStats_def Let_def)
  have zero: "attackTotal (calculateStats ls) = 0 \<longrightarrow> attackRate (calculateStats ls) = 0"
    by (simp add: attackRate_def)
  have le: "attackKills (calculateStats ls) \<le> attackTotal (calculateStats ls)"
    unfolding total kills by (rule countWhere_conj_le)
  have rate: "0 < attackTotal (calculateStats ls) \<and> attackTotal (calculateStats ls) < 2 ^ 40 \<longrightarrow>
        attackRate (calculateStats ls)
          = Math_round
              (toDouble
                 (toDouble (real (attackKills (calculateStats ls))
                              / real (attackTotal (calculateStats ls))) * 100))
        \<and> \<bar>real_of_int (attackRate (calculateStats ls))
             - real (attackKills (calculateStats ls))
                 / real (attackTotal (calculateStats ls)) * 100\<bar> \<le> 1 / 2"
  proof
    assume b: "0 < attackTotal (calculateStats ls) \<and> attackTotal (calculateStats ls) < 2 ^ 40"
    then have eq: "attackRate (calculateStats ls)
          = Math_round
              (toDouble
                 (toDouble (real (attackKills (calculateStats ls))
                              / real (attackTotal (calculateStats ls))) * 100))"
      by (simp add: attackRate_def)
    from b le have "\<bar>real_of_int
              (Math_round
                (toDouble
                  (toDouble (real (attackKills (calculateStats ls))
                               / real (attackTotal (calculateStats ls))) * 100)))
            - real (attackKills (calculateStats ls))
                / real (attackTotal (calculateStats ls)) * 100\<bar> \<le> 1 / 2"
      by (intro rate_near) simp_all
    with eq show "attackRate (calculateStats ls)
          = Math_round
              (toDouble
                 (toDouble (real (attackKills (calculateStats ls))
                              / real (attackTotal (calculateStats ls))) * 100))
        \<and> \<bar>real_of_int (attackRate (calculateStats ls))
             - real (attackKills (calculateStats ls))
                 / real (attackTotal (calculateStats ls)) * 100\<bar> \<le> 1 / 2"
      by simp
  qed
  from total kills blk aces errs pts zero rate show ?thesis by blast
qed

text \<open>
  Three attacks with one kill, one block that scored and one that did not, an ace and a
  serve error: the total is three points, and the efficiency, within one half of 100/3,
  is 33 percent. An empty subset has efficiency 0.
\<close>

theorem stats_aggregation_witness:
  "0 < attackTotal (calculateStats sampleLogs)
   \<and> attackTotal (calculateStats sampleLogs) < 2 ^ 40
   \<and> attackKills (calculateStats sampleLogs) = 1
   \<and> attackTotal (calculateStats sampleLogs) = 3
   \<and> blocks (calculateStats sampleLogs) = 1
   \<and> totalPoints (calculateStats sampleLogs) = 3
   \<and> attackRate (calculateStats sampleLogs) = 33
   \<and> attackTotal (calculateStats []) = 0
   \<and> attackRate (calculateStats []) = 0"
proof -
  have s: "attackKills (calculateStats sampleLogs) = 1"
      "attackTotal (calculateStats sampleLogs) = 3"
      "blocks (calculateStats sampleLogs) = 1"
      "totalPoints (calculateStats sampleLogs) = 3"
    by (simp_all add: calculateStats_sample)
  have "0 < attackTotal (calculateStats sampleLogs)
          \<and> attackTotal (calculateStats sampleLogs) < 2 ^ 40"
    by (simp add: s)
  with stats_aggregation [where ls = sampleLogs]
  have "\<bar>real_of_int (attackRate (calculateStats sampleLogs))
          - real (attackKills (calculateStats sampleLogs))
              / real (attackTotal (calculateStats sampleLogs)) * 100\<bar> \<le> 1 / 2"
    by blast
  then have "\<bar>real_of_int (attackRate (calculateStats sampleLogs)) - 100 / 3\<bar> \<le> 1 / 2"
    by (simp add: s)
  then have "32 < real_of_int (attackRate (calculateStats sampleLogs))"
    and "real_of_int (attackRate (calculateStats sampleLogs)) < 34"
    by linarith+
  then have "32 < attackRate (calculateStats sampleLogs)"
    and "attackRate (calculateStats sampleLogs) < 34"
    by linarith+
  then have r: "attackRate (calculateStats sampleLogs) = 33" by linarith
  have e: "attackTotal (calculateStats []) = 0" "attackRate (calculateStats []) = 0"
    using stats_aggregation [where ls = "[]"] by (simp_all add: countWhere_def)
  from s r e show ?thesis by simp
qed

text \<open>
  C9 as stated fails in its efficiency clause. For forty attacks of which twenty-three
  scored, kills divided by attempts is 23/40. In doubles the quotient is
  5179139571476070 / 2^53, its product with 100 is 8092405580431359 / 2^47, just
  below 57.5, and \<open>Math.round\<close> gives 57: the efficiency shown is the integer 57, which
  is neither the ratio 23/40 nor, read as a percentage, equal to it.
\<close>

theorem attack_rate_not_ratio:
  "attackKills (calculateStats killLogs) = 23
   \<and> attackTotal (calculateStats killLogs) = 40
   \<and> attackRate (calculateStats killLogs) = 57
   \<and> real_of_int (attackRate (calculateStats killLogs))
       \<noteq> real (attackKills (calculateStats killLogs)) / real (attackTotal (calculateStats killLogs))
   \<and> real_of_int (attackRate (calculateStats killLogs)) / 100
       \<noteq> real (attackKills (calculateStats killLogs)) / real (attackTotal (calculateStats killLogs))"
proof -
  have "attackRate (calculateStats killLogs) = Math_round (toDouble (toDouble (23 / 40) * 100))"
    by (simp add: attackRate_def calculateStats_killLogs)
  then have r: "attackRate (calculateStats killLogs) = 57"
    by (simp only: rate_23_40)
  show ?thesis
    by (simp add: r calculateStats_killLogs)
qed

section \<open>Manual score decrement\<close>

text \<open>
  C10. For every manual score adjustment with a negative delta: no lineup replacement
  and no serving-team replacement is emitted; the score delta is the given delta on the
  adjusted side and 0 on the other; the synthesized log entry records result Normal and
  the unchanged serving team; and the snapshot after the call differs from the one
  before only in the event log, which gains that entry, and in the score of the adjusted
  side, which moves by delta (one point down for the delta -1 of the decrement
  buttons). The serving team, both lineups and both Liberos are unchanged.
\<close>

theorem score_decrement_frame:
  assumes "delta < 0"
  shows "lineupUpdate (handleScoreAdjust m now isMy delta) = None
     \<and> servingTeamUpdate (handleScoreAdjust m now isMy delta) = None
     \<and> scoreUpdate (handleScoreAdjust m now isMy delta)
         = Some \<lparr> myDelta = (if isMy then delta else 0), opDelta = (if isMy then 0 else delta) \<rparr>
     \<and> (case newLog (handleScoreAdjust m now isMy delta) of
           None \<Rightarrow> False
         | Some e \<Rightarrow>
             log_result e = NORMAL \<and> log_servingTeam e = servingTeam m
             \<and> onGameAction (handleScoreAdjust m now isMy delta) m
                 = m \<lparr> logs := logs m @ [e],
                       myScore := myScore m + (if isMy then delta else 0),
                       opScore := opScore m + (if isMy then 0 else delta) \<rparr>)"
  using assms
  by (cases isMy) (simp_all add: handleScoreAdjust_def Let_def onGameAction_def)

theorem score_decrement_frame_witness:
  "(- 1 :: int) < 0
   \<and> lineupUpdate (handleScoreAdjust (scenarioMatch Op) 0 True (- 1)) = None
   \<and> servingTeamUpdate (handleScoreAdjust (scenarioMatch Op) 0 True (- 1)) = None
   \<and> myScore (onGameAction (handleScoreAdjust (scenarioMatch Op) 0 True (- 1)) (scenarioMatch Op))
       = myScore (scenarioMatch Op) - 1
   \<and> opScore (onGameAction (handleScoreAdjust (scenarioMatch Op) 0 True (- 1)) (scenarioMatch Op))
       = opScore (scenarioMatch Op)
   \<and> servingTeam (onGameAction (handleScoreAdjust (scenarioMatch Op) 0 True (- 1)) (scenarioMatch Op))
       = Op
   \<and> initialMyLineup (onGameAction (handleScoreAdjust (scenarioMatch Op) 0 True (- 1)) (scenarioMatch Op))
       = scenarioLineup"
  using score_decrement_frame
    [where delta = "- 1" and m = "scenarioMatch Op" and now = 0 and isMy = True]
  by (simp add: onGameAction_fields scenarioMatch_def)

end
